theory Spec2Isabelle
  imports Complex_Main
begin

section \<open>Data model of the multi-frame problem\<close>

text \<open>
  A shallow embedding of \<^verbatim>\<open>omgtools/problems/multiframeproblem.py\<close>.
  Python floats are modelled as real numbers, so every statement below is about the
  exact arithmetic the code approximates. A 2D point (a Python list \<^verbatim>\<open>[x, y]\<close>)
  is a pair; the limits of a frame border are the list
  \<^verbatim>\<open>[xmin, ymin, xmax, ymax]\<close>.
\<close>

type_synonym point = "real \<times> real"

type_synonym limits = "real \<times> real \<times> real \<times> real"

text \<open>
  The exceptions the code raises. \<open>NonFinite\<close> is not an exception: it stands for a
  float division by a numpy zero, whose result (an infinity or a nan) no real number
  models.
\<close>

datatype error =
  RuntimeError | ValueError | IndexError | ZeroDivisionError | UnboundLocalError
  | AttributeError | NonFinite

text \<open>
  The two shapes the module imports: a circle with its radius, and a rectangle with its
  width, height and orientation.
\<close>

datatype shape =
  Circle real
  | Rectangle real real real

record border =
  shape_width :: real
  shape_height :: real
  position :: "real \<times> real \<times> real"
  orientation :: real
  limits :: limits

text \<open>\<^verbatim>\<open>make_border\<close>: the rectangle, its centre and its limits.\<close>

definition make_border :: "real \<Rightarrow> real \<Rightarrow> real \<Rightarrow> real \<Rightarrow> border" where
  "make_border xmin ymin xmax ymax =
     \<lparr> shape_width = xmax - xmin,
       shape_height = ymax - ymin,
       position = ((xmax - xmin) * 0.5 + xmin, (ymax - ymin) * 0.5 + ymin, 0),
       orientation = 0,
       limits = (xmin, ymin, xmax, ymax) \<rparr>"

section \<open>Vehicle size and safety margin\<close>

text \<open>
  \<^verbatim>\<open>__init__\<close>, lines 42 to 48: the attribute \<^verbatim>\<open>veh_size\<close> is the radius of a
  circular vehicle and \<^verbatim>\<open>max(width, height)\<close> of a rectangular one. The margin
  \<^verbatim>\<open>scale_factor\<close> is a separate attribute.
\<close>

definition init_veh_size :: "shape \<Rightarrow> real" where
  "init_veh_size sh =
     (case sh of
        Circle radius \<Rightarrow> radius
      | Rectangle width height orient \<Rightarrow> max width height)"

definition scale_factor :: real where
  "scale_factor = 1.2"

text \<open>
  The test \<^verbatim>\<open>abs(d) <= self.veh_size\<close> that the frame builders apply to a
  distance between a waypoint and the border.
\<close>

definition too_close :: "real \<Rightarrow> real \<Rightarrow> bool" where
  "too_close vs d = (\<bar>d\<bar> \<le> vs)"

text \<open>
  The envelope as the specification words it: the circle's radius or the rectangle's
  larger half-dimension, times the safety factor.
\<close>

definition spec_vehicle_envelope :: "shape \<Rightarrow> real" where
  "spec_vehicle_envelope sh =
     (case sh of
        Circle radius \<Rightarrow> radius * 1.2
      | Rectangle width height orient \<Rightarrow> max (width / 2) (height / 2) * 1.2)"

section \<open>Stop criterion\<close>

text \<open>
  \<^verbatim>\<open>stop_criterium\<close>: the result is \<^verbatim>\<open>True\<close>, \<^verbatim>\<open>False\<close> or, when
  the last frame is active and the local problem has not stopped, Python's
  \<^verbatim>\<open>None\<close> (the function falls off its end). The local problem's own criterion is
  an external call; its result is the argument \<open>local_stop\<close>.
\<close>

datatype pyresult = PyTrue | PyFalse | PyNone

definition truthy :: "pyresult \<Rightarrow> bool" where
  "truthy r = (r = PyTrue)"

definition stop_criterium :: "point \<Rightarrow> point \<Rightarrow> bool \<Rightarrow> pyresult" where
  "stop_criterium endpoint_frame goal_state local_stop =
     (if endpoint_frame = goal_state
      then (if local_stop then PyTrue else PyNone)
      else PyFalse)"

section \<open>Shifting a point back along a segment\<close>

text \<open>numpy's \<^verbatim>\<open>arctan2(y, x)\<close>, the angle of the vector \<open>(x, y)\<close>.\<close>

definition arctan2 :: "real \<Rightarrow> real \<Rightarrow> real" where
  "arctan2 y x =
     (if 0 < x then arctan (y / x)
      else if x < 0 \<and> 0 \<le> y then arctan (y / x) + pi
      else if x < 0 then arctan (y / x) - pi
      else if 0 < y then pi / 2
      else if y < 0 then - (pi / 2)
      else 0)"

definition segment_length :: "point \<Rightarrow> point \<Rightarrow> real" where
  "segment_length start end =
     sqrt ((fst end - fst start)\<^sup>2 + (snd end - snd start)\<^sup>2)"

definition segment_angle :: "point \<Rightarrow> point \<Rightarrow> real" where
  "segment_angle start end = arctan2 (snd end - snd start) (fst end - fst start)"

text \<open>
  \<^verbatim>\<open>move_back\<close> of \<^verbatim>\<open>shift_point_back\<close>: how far to move back over the
  segment to obtain the perpendicular distance \<open>distance\<close>.
\<close>

definition move_back :: "point \<Rightarrow> point \<Rightarrow> real \<Rightarrow> real" where
  "move_back start end distance =
     (if fst start = fst end \<or> snd start = snd end then distance
      else max \<bar>distance / cos (segment_angle start end)\<bar>
               \<bar>distance / sin (segment_angle start end)\<bar>)"

text \<open>
  \<^verbatim>\<open>shift_point_back(start, end, percentage, distance)\<close>. With both keyword
  arguments zero \<^verbatim>\<open>new_length\<close> is never assigned and its read raises.
\<close>

definition shift_point_back :: "point \<Rightarrow> point \<Rightarrow> real \<Rightarrow> real \<Rightarrow> error + point" where
  "shift_point_back start end percentage distance =
     (let length = segment_length start end;
          angle = segment_angle start end
      in if percentage \<noteq> 0
         then (let new_length = length * (1 - percentage / 100)
               in Inr (fst start + new_length * cos angle, snd start + new_length * sin angle))
         else if distance \<noteq> 0
         then (let new_length = length - move_back start end distance;
                   new_length = (if new_length < 0 then 0 else new_length)
               in Inr (fst start + new_length * cos angle, snd start + new_length * sin angle))
         else Inl UnboundLocalError)"

section \<open>Geometry of the frame border\<close>

text \<open>
  \<^verbatim>\<open>point_in_frame(point, frame=..., distance=...)\<close> without a time: the point lies
  inside the limits shrunk by \<open>distance\<close>, borders included.
\<close>

definition point_in_frame :: "point \<Rightarrow> border \<Rightarrow> real \<Rightarrow> bool" where
  "point_in_frame point b distance =
     (case limits b of (xmin, ymin, xmax, ymax) \<Rightarrow>
        (xmin + distance \<le> fst point \<and> fst point \<le> xmax - distance)
        \<and> (ymin + distance \<le> snd point \<and> snd point \<le> ymax - distance))"

text \<open>
  \<^verbatim>\<open>distance_to_border\<close>: the four point-to-line distances, written as in the source,
  and the choice of the nearer side per direction. The distance to the left and to the
  lower side is negative. The divisors are the height and the width of the border; for a
  border without height or width the quotients are not finite.
\<close>

definition line_distance :: "point \<Rightarrow> point \<Rightarrow> point \<Rightarrow> real" where
  "line_distance va vb point =
     \<bar>(snd vb - snd va) * fst point - (fst vb - fst va) * snd point
        + fst vb * snd va - snd vb * fst va\<bar>
     / sqrt ((snd vb - snd va)\<^sup>2 + (fst vb - fst va)\<^sup>2)"

definition distance_to_border :: "point \<Rightarrow> border \<Rightarrow> error + real \<times> real" where
  "distance_to_border point b =
     (case limits b of (x2, y2, x3, y3) \<Rightarrow>
        let v1 = (x2, y2); v2 = (x2, y3); v3 = (x3, y3); v4 = (x3, y2);
            dist12 = - line_distance v1 v2 point;
            dist23 = line_distance v2 v3 point;
            dist34 = line_distance v3 v4 point;
            dist41 = - line_distance v4 v1 point
        in if y3 - y2 = 0 \<or> x3 - x2 = 0 then Inl NonFinite
           else Inr (if \<bar>dist12\<bar> < \<bar>dist34\<bar> then dist12 else dist34,
                     if \<bar>dist23\<bar> < \<bar>dist41\<bar> then dist23 else dist41))"

text \<open>\<^verbatim>\<open>any(abs(d) <= self.veh_size for d in dist_to_border)\<close>.\<close>

definition any_too_close :: "real \<Rightarrow> real \<times> real \<Rightarrow> bool" where
  "any_too_close vs dist_to_border =
     (too_close vs (fst dist_to_border) \<or> too_close vs (snd dist_to_border))"

text \<open>
  Modelled from the spec: \<^verbatim>\<open>distance_between_points\<close> of the geometry module, which is
  not among the sources; the spec calls it the straight-line distance.
\<close>

definition distance_between_points :: "point \<Rightarrow> point \<Rightarrow> real" where
  "distance_between_points p q = sqrt ((fst p - fst q)\<^sup>2 + (snd p - snd q)\<^sup>2)"

section \<open>Obstacles and the environment\<close>

text \<open>
  An obstacle as the frame engine reads it: its shape, the last column of its position and
  velocity signals, the velocity values of its simulated trajectory (absent when the
  obstacle has no trajectory or no velocity entry) and the option \<^verbatim>\<open>avoid\<close>.
\<close>

record obstacle =
  ob_shape :: shape
  ob_position :: point
  ob_velocity :: point
  traj_velocity :: "point list option"
  avoid :: bool

record environment =
  room_shape :: shape
  room_position :: point
  obstacles :: "obstacle list"

text \<open>
  Modelled from the spec: \<^verbatim>\<open>get_canvas_limits\<close> of the shape module, which is not among
  the sources: the bounding box of the shape around its own origin,
  \<^verbatim>\<open>[[xmin, xmax], [ymin, ymax]]\<close>. A circle is bounded by its square; the box of a
  rectangle is that of the rectangle before any rotation (the frame engine reads it only
  for rectangles of orientation 0).
\<close>

definition get_canvas_limits :: "shape \<Rightarrow> (real \<times> real) \<times> (real \<times> real)" where
  "get_canvas_limits sh =
     (case sh of
        Circle radius \<Rightarrow> ((- radius, radius), (- radius, radius))
      | Rectangle width height orient \<Rightarrow>
          ((- (width / 2), width / 2), (- (height / 2), height / 2)))"

definition room_xmin :: "environment \<Rightarrow> real" where
  "room_xmin env = fst (fst (get_canvas_limits (room_shape env))) + fst (room_position env)"

definition room_xmax :: "environment \<Rightarrow> real" where
  "room_xmax env = snd (fst (get_canvas_limits (room_shape env))) + fst (room_position env)"

definition room_ymin :: "environment \<Rightarrow> real" where
  "room_ymin env = fst (snd (get_canvas_limits (room_shape env))) + snd (room_position env)"

definition room_ymax :: "environment \<Rightarrow> real" where
  "room_ymax env = snd (snd (get_canvas_limits (room_shape env))) + snd (room_position env)"

text \<open>
  An obstacle is stationary when it has no trajectory velocities or all of them are zero.
\<close>

definition is_stationary :: "obstacle \<Rightarrow> bool" where
  "is_stationary ob =
     (case traj_velocity ob of
        None \<Rightarrow> True
      | Some vels \<Rightarrow> list_all (\<lambda>vel. vel = (0, 0)) vels)"

definition supported_shape :: "shape \<Rightarrow> bool" where
  "supported_shape sh =
     (case sh of
        Circle radius \<Rightarrow> True
      | Rectangle width height orient \<Rightarrow> orient = 0)"

text \<open>The bounding box of an obstacle at its position, and the rectangle overlap test.\<close>

definition obstacle_box :: "obstacle \<Rightarrow> limits" where
  "obstacle_box ob =
     (case get_canvas_limits (ob_shape ob) of ((xmin_obs, xmax_obs), (ymin_obs, ymax_obs)) \<Rightarrow>
        (xmin_obs + fst (ob_position ob), ymin_obs + snd (ob_position ob),
         xmax_obs + fst (ob_position ob), ymax_obs + snd (ob_position ob)))"

definition overlaps :: "limits \<Rightarrow> limits \<Rightarrow> bool" where
  "overlaps f ob =
     (case f of (xmin_f, ymin_f, xmax_f, ymax_f) \<Rightarrow>
      case ob of (xmin_obs, ymin_obs, xmax_obs, ymax_obs) \<Rightarrow>
        xmin_f \<le> xmax_obs \<and> xmax_f \<ge> xmin_obs \<and> ymin_f \<le> ymax_obs \<and> ymax_f \<ge> ymin_obs)"

text \<open>
  \<^verbatim>\<open>get_stationary_obstacles_in_frame\<close>: all stationary obstacles whose box overlaps the
  border, in the order of the environment; a stationary obstacle of an unsupported shape
  raises RuntimeError when the loop reaches it.
\<close>

fun get_stationary_obstacles_in_frame :: "obstacle list \<Rightarrow> border \<Rightarrow> error + obstacle list" where
  "get_stationary_obstacles_in_frame [] b = Inr []"
| "get_stationary_obstacles_in_frame (ob # obs) b =
     (if is_stationary ob
      then (if supported_shape (ob_shape ob)
            then (case get_stationary_obstacles_in_frame obs b of
                    Inl e \<Rightarrow> Inl e
                  | Inr rest \<Rightarrow>
                      Inr (if overlaps (limits b) (obstacle_box ob) then ob # rest else rest))
            else Inl RuntimeError)
      else get_stationary_obstacles_in_frame obs b)"

section \<open>The min-nobs frame\<close>

text \<open>
  The attributes of the problem object that the frame builders read.
\<close>

record problem =
  environment :: environment
  veh_size :: real
  global_path :: "point list"
  goal_state :: point
  curr_state :: point
  frame_size :: real
  motion_time :: real

text \<open>
  \<^verbatim>\<open>update_frame_with_waypoint\<close>: move the borders that lie in the direction from
  \<open>prev_point\<close> to \<open>point\<close>, and report the stationary obstacles of the new border.
\<close>

definition update_frame_with_waypoint ::
  "problem \<Rightarrow> border \<Rightarrow> point \<Rightarrow> point \<Rightarrow> error + border \<times> obstacle list" where
  "update_frame_with_waypoint self b prev_point point =
     (case limits b of (xmin, ymin, xmax, ymax) \<Rightarrow>
        let xmax_new = (if fst point > fst prev_point
                        then fst point + veh_size self * scale_factor else xmax);
            xmin_new = (if fst point > fst prev_point then xmin
                        else if fst point < fst prev_point
                        then fst point - veh_size self * scale_factor else xmin);
            ymax_new = (if snd point > snd prev_point
                        then snd point + veh_size self * scale_factor else ymax);
            ymin_new = (if snd point > snd prev_point then ymin
                        else if snd point < snd prev_point
                        then snd point - veh_size self * scale_factor else ymin);
            b_new = make_border xmin_new ymin_new xmax_new ymax_new
        in (case get_stationary_obstacles_in_frame (obstacles (environment self)) b_new of
              Inl e \<Rightarrow> Inl e
            | Inr stationary_obstacles \<Rightarrow> Inr (b_new, stationary_obstacles)))"

text \<open>
  The search for the waypoint closest to \<open>start\<close>: the index of the last strict
  improvement of the distance, which starts at the larger dimension of the room.
\<close>

fun closest_index :: "point \<Rightarrow> point list \<Rightarrow> nat \<Rightarrow> real \<Rightarrow> nat \<Rightarrow> nat" where
  "closest_index start [] idx dist_min index = index"
| "closest_index start (point # rest) idx dist_min index =
     (let d = distance_between_points point start
      in if d < dist_min then closest_index start rest (Suc idx) d idx
         else closest_index start rest (Suc idx) dist_min index)"

text \<open>
  \<^verbatim>\<open>max(room.width, room.height)\<close>; a circle has neither attribute.
\<close>

definition room_dimension :: "shape \<Rightarrow> error + real" where
  "room_dimension sh =
     (case sh of
        Rectangle width height orient \<Rightarrow> Inr (max width height)
      | Circle radius \<Rightarrow> Inl AttributeError)"

text \<open>
  The loop of \<^verbatim>\<open>get_min_nobs_frame\<close> over \<^verbatim>\<open>global_path[index:]\<close>: a waypoint inside
  the border is taken as it is; for one outside, the border is enlarged, and when the
  enlarged border holds a stationary obstacle the old limits are restored and the loop
  ends.
\<close>

fun absorb_waypoints ::
  "problem \<Rightarrow> point \<Rightarrow> point list \<Rightarrow> border \<Rightarrow> point list \<Rightarrow> error + border \<times> point list" where
  "absorb_waypoints self start [] b points_in_frame = Inr (b, points_in_frame)"
| "absorb_waypoints self start (point # rest) b points_in_frame =
     (case limits b of (xmin, ymin, xmax, ymax) \<Rightarrow>
        if \<not> point_in_frame point b 0
        then (let prev_point = (if points_in_frame \<noteq> [] then last points_in_frame else start)
              in case update_frame_with_waypoint self b prev_point point of
                   Inl e \<Rightarrow> Inl e
                 | Inr (b_new, stationary_obstacles) \<Rightarrow>
                     if stationary_obstacles \<noteq> []
                     then Inr (make_border xmin ymin xmax ymax, points_in_frame)
                     else absorb_waypoints self start rest b_new (points_in_frame @ [point]))
        else absorb_waypoints self start rest b (points_in_frame @ [point]))"

text \<open>
  \<^verbatim>\<open>get_min_nobs_frame(start)\<close>. The result is the border and the waypoints of the new
  frame dictionary (its type is always \<^verbatim>\<open>min_nobs\<close>; the endpoint entry that the fast
  path writes is overwritten by both callers).
\<close>

definition get_min_nobs_frame :: "problem \<Rightarrow> point \<Rightarrow> error + border \<times> point list" where
  "get_min_nobs_frame self start =
     (let xmin = fst start - veh_size self * scale_factor;
          ymin = snd start - veh_size self * scale_factor;
          xmax = fst start + veh_size self * scale_factor;
          ymax = snd start + veh_size self * scale_factor;
          b = make_border xmin ymin xmax ymax
      in case room_dimension (room_shape (environment self)) of
           Inl e \<Rightarrow> Inl e
         | Inr dist_min \<Rightarrow>
             if global_path self = [] then Inl IndexError
             else
               let index = closest_index start (global_path self) 0 dist_min 0;
                   point = last (global_path self);
                   res =
                     (if \<not> point_in_frame point b 0
                      then (case update_frame_with_waypoint self b start point of
                              Inl e \<Rightarrow> Inl e
                            | Inr (b_new, stationary_obstacles) \<Rightarrow>
                                if stationary_obstacles \<noteq> []
                                then absorb_waypoints self start (drop index (global_path self))
                                       (make_border xmin ymin xmax ymax) []
                                else Inr (b_new, drop index (global_path self)))
                      else Inr (b, drop index (global_path self)))
               in (case res of
                     Inl e \<Rightarrow> Inl e
                   | Inr (b_res, points_in_frame) \<Rightarrow>
                       if points_in_frame = [] then Inl RuntimeError
                       else Inr (b_res, points_in_frame)))"

text \<open>
  One \<^verbatim>\<open>while True\<close> loop of \<^verbatim>\<open>scale_up_frame\<close>. The border coordinate \<open>v\<close> moves
  by steps of 0.1 (upwards when \<open>up\<close>) towards the limit \<open>bound\<close> of the room;
  \<open>mk\<close> builds the border from a candidate coordinate and \<open>stat\<close> queries the
  stationary obstacles. The result is the committed coordinate and the border last
  stored in \<^verbatim>\<open>scaled_frame\<close>.
\<close>

function scale_loop ::
  "(border \<Rightarrow> error + obstacle list) \<Rightarrow> (real \<Rightarrow> border) \<Rightarrow> bool \<Rightarrow> real \<Rightarrow> real
     \<Rightarrow> error + real \<times> border" where
  "scale_loop stat mk up bound v =
     (let v_new = (if up then v + 0.1 else v - 0.1)
      in if (if up then v_new > bound else v_new < bound)
         then Inr (bound, mk v_new)
         else (case stat (mk v_new) of
                 Inl e \<Rightarrow> Inl e
               | Inr stationary_obstacles \<Rightarrow>
                   if stationary_obstacles = [] then scale_loop stat mk up bound v_new
                   else Inr (v, mk v)))"
  by pat_completeness auto
termination
proof (relation "measure (\<lambda>(stat, mk, up, bound, v).
         nat \<lceil>(if up then bound - v else v - bound) * 10\<rceil>)", goal_cases)
  case 1
  show ?case by simp
next
  case (2 stat mk up bound v v_new x2)
  have "nat \<lceil>(d - 1 / 10) * 10\<rceil> < nat \<lceil>d * 10\<rceil>" if "1 / 10 \<le> d" for d :: real
  proof -
    have "(d - 1 / 10) * 10 = d * 10 - 1" by (simp add: algebra_simps)
    moreover have "1 \<le> \<lceil>d * 10\<rceil>" using that by (simp add: le_ceiling_iff)
    ultimately show ?thesis by (simp add: ceiling_diff_one)
  qed
  from this [of "bound - v"] this [of "v - bound"] 2 show ?case
    by (auto simp: algebra_simps split: if_splits)
qed

declare scale_loop.simps [simp del]

text \<open>
  One direction of \<^verbatim>\<open>scale_up_frame\<close>: first try the limit of the room, then the loop.
\<close>

definition scale_direction ::
  "(border \<Rightarrow> error + obstacle list) \<Rightarrow> (real \<Rightarrow> border) \<Rightarrow> bool \<Rightarrow> real \<Rightarrow> real
     \<Rightarrow> error + real \<times> border" where
  "scale_direction stat mk up bound v =
     (case stat (mk bound) of
        Inl e \<Rightarrow> Inl e
      | Inr stationary_obstacles \<Rightarrow>
          if stationary_obstacles = [] then Inr (bound, mk bound)
          else scale_loop stat mk up bound v)"

text \<open>
  \<^verbatim>\<open>list.index\<close>: the first position of a value, ValueError when it is absent.
\<close>

fun list_index :: "'a \<Rightarrow> 'a list \<Rightarrow> error + nat" where
  "list_index x [] = Inl ValueError"
| "list_index x (y # ys) =
     (if y = x then Inr 0
      else (case list_index x ys of Inl e \<Rightarrow> Inl e | Inr n \<Rightarrow> Inr (Suc n)))"

text \<open>
  The last loop of \<^verbatim>\<open>scale_up_frame\<close>: waypoints of the path inside the scaled border
  are appended unless already present; the first waypoint outside ends the loop.
\<close>

fun append_waypoints :: "border \<Rightarrow> point list \<Rightarrow> point list \<Rightarrow> point list" where
  "append_waypoints b [] wps = wps"
| "append_waypoints b (point # rest) wps =
     (if point_in_frame point b 0
      then append_waypoints b rest (if point \<notin> set wps then wps @ [point] else wps)
      else wps)"

text \<open>
  \<^verbatim>\<open>scale_up_frame(frame)\<close>: the four directions in the order of the source (x up,
  x down, y up, y down), each starting from the coordinates committed so far. The border
  returned is the one stored by the last direction.
\<close>

definition scale_up_frame :: "problem \<Rightarrow> border \<times> point list \<Rightarrow> error + border \<times> point list" where
  "scale_up_frame self frame =
     (let env = environment self;
          stat = get_stationary_obstacles_in_frame (obstacles env)
      in case limits (fst frame) of (xmin, ymin, xmax, ymax) \<Rightarrow>
        (case scale_direction stat (\<lambda>x. make_border xmin ymin x ymax) True (room_xmax env) xmax of
           Inl e \<Rightarrow> Inl e
         | Inr (xmax, b1) \<Rightarrow>
        (case scale_direction stat (\<lambda>x. make_border x ymin xmax ymax) False (room_xmin env) xmin of
           Inl e \<Rightarrow> Inl e
         | Inr (xmin, b2) \<Rightarrow>
        (case scale_direction stat (\<lambda>y. make_border xmin ymin xmax y) True (room_ymax env) ymax of
           Inl e \<Rightarrow> Inl e
         | Inr (ymax, b3) \<Rightarrow>
        (case scale_direction stat (\<lambda>y. make_border xmin y xmax ymax) False (room_ymin env) ymin of
           Inl e \<Rightarrow> Inl e
         | Inr (ymin, scaled_border) \<Rightarrow>
             if snd frame = [] then Inl IndexError
             else (case list_index (last (snd frame)) (global_path self) of
                     Inl e \<Rightarrow> Inl e
                   | Inr index \<Rightarrow>
                       Inr (scaled_border,
                            append_waypoints scaled_border (drop index (global_path self))
                              (snd frame))))))))"

section \<open>Reachability of the last waypoint\<close>

text \<open>
  The \<^verbatim>\<open>while True\<close> loop that both frame constructors run when the last waypoint is
  too close to the border: \<open>count\<close> starts at 1 and grows while
  \<^verbatim>\<open>waypoints[-1-count]\<close> is too close as well. The list argument holds
  \<^verbatim>\<open>waypoints[-2]\<close>, \<^verbatim>\<open>waypoints[-3]\<close>, ... ; running past the first waypoint is
  Python's IndexError.
\<close>

fun find_count :: "real \<Rightarrow> border \<Rightarrow> point list \<Rightarrow> nat \<Rightarrow> error + nat" where
  "find_count vs b [] count = Inl IndexError"
| "find_count vs b (w # ws) count =
     (case distance_to_border w b of
        Inl e \<Rightarrow> Inl e
      | Inr dist_to_border \<Rightarrow>
          if any_too_close vs dist_to_border then find_count vs b ws (Suc count)
          else Inr count)"

text \<open>
  \<^verbatim>\<open>create_frame\<close>, lines 432 to 481: the new last waypoint computed from the line
  between \<open>p1 = waypoints[-1-count]\<close> and \<open>p2 = waypoints[-1]\<close>. The tangent is
  zero where the distance to the border is zero; the float quotient is then infinite
  (or of the order of 1e15), which the model reports as \<open>NonFinite\<close>. At an angle of
  \<open>pi / 2\<close> the float tangent is of the order of 1e16 and the quotient vanishes in the
  sum; in HOL \<open>tan (pi / 2) = 0\<close> and \<open>x / 0 = 0\<close>, so the model has the quotient 0
  there as well. The other divisions are by the difference of a coordinate of the two
  waypoints, of which one is too close to the border in that direction and the other is
  not.
\<close>

definition relocate_waypoint :: "problem \<Rightarrow> border \<Rightarrow> point \<Rightarrow> point \<Rightarrow> error + point" where
  "relocate_waypoint self b p1 p2 =
     (case limits b of (xmin, ymin, xmax, ymax) \<Rightarrow>
     (case distance_to_border p2 b of
        Inl e \<Rightarrow> Inl e
      | Inr dist_to_border \<Rightarrow>
          let x1 = fst p1; y1 = snd p1; x2 = fst p2; y2 = snd p2;
              new_waypoint = None;
              new_waypoint =
                (if \<bar>fst dist_to_border\<bar> \<le> veh_size self
                 then (let x3 = (if fst dist_to_border \<le> 0 then xmin else xmax);
                           y3 = (if y2 = y1 then y1
                                 else (x3 - x1) * ((x2 - x1) / (y2 - y1)) + y1);
                           angle = arctan2 (fst dist_to_border) (y3 - y2);
                           l2 = (veh_size self * scale_factor) / tan angle;
                           new_y = (if y2 \<le> y3 then y3 - l2 else y3 + l2);
                           new_x = (new_y - y1) * ((y2 - y1) / (x2 - x1)) + x1
                       in Some (if sin angle = 0 then Inl NonFinite else Inr (new_x, new_y)))
                 else new_waypoint);
              new_waypoint =
                (if \<bar>snd dist_to_border\<bar> \<le> veh_size self
                 then (let y3 = (if snd dist_to_border \<le> 0 then ymin else ymax);
                           x3 = (if x2 = x1 then x1
                                 else (y3 - y1) * ((y2 - y1) / (x2 - x1)) + x1);
                           angle = arctan2 (snd dist_to_border) (y3 - y2);
                           l2 = (veh_size self * scale_factor) / tan angle;
                           new_x = (if x2 \<le> x3 then x3 - l2 else x3 + l2);
                           new_y = (new_x - x1) * ((x2 - x1) / (y2 - y1)) + y1
                       in Some (if sin angle = 0 then Inl NonFinite else Inr (new_x, new_y)))
                 else new_waypoint)
          in (case new_waypoint of
                None \<Rightarrow> Inl UnboundLocalError
              | Some r \<Rightarrow> r)))"

text \<open>
  \<^verbatim>\<open>create_next_frame\<close>, lines 936 to 963: the same step as written for the next
  frame, which places the new waypoint at the desired distance from the border and
  interpolates the other coordinate on the line.
\<close>

definition relocate_waypoint_next :: "problem \<Rightarrow> border \<Rightarrow> point \<Rightarrow> point \<Rightarrow> error + point" where
  "relocate_waypoint_next self b p1 p2 =
     (case limits b of (xmin, ymin, xmax, ymax) \<Rightarrow>
     (case distance_to_border p2 b of
        Inl e \<Rightarrow> Inl e
      | Inr dist_to_border \<Rightarrow>
          let desired_distance = veh_size self * scale_factor;
              x1 = fst p1; y1 = snd p1; x2 = fst p2; y2 = snd p2;
              new_waypoint = None;
              new_waypoint =
                (if \<bar>fst dist_to_border\<bar> \<le> veh_size self
                 then (let new_x = (if fst dist_to_border \<le> 0 then xmin + desired_distance
                                    else xmax - desired_distance);
                           new_y = (if y1 = y2 then y1
                                    else (new_x - x1) * ((y2 - y1) / (x2 - x1)) + y1)
                       in Some (new_x, new_y))
                 else new_waypoint);
              new_waypoint =
                (if \<bar>snd dist_to_border\<bar> \<le> veh_size self
                 then (let new_y = (if snd dist_to_border \<le> 0 then ymin + desired_distance
                                    else ymax - desired_distance);
                           new_x = (if x1 = x2 then x1
                                    else (new_y - y1) * ((x2 - x1) / (y2 - y1)) + x1)
                       in Some (new_x, new_y))
                 else new_waypoint)
          in (case new_waypoint of
                None \<Rightarrow> Inl UnboundLocalError
              | Some r \<Rightarrow> Inr r)))"

text \<open>
  Method 2 (``move waypoint, keep frame borders'') around either relocation: when the
  last waypoint is too close to the border, the last \<open>count\<close> waypoints are popped
  and the relocated waypoint is appended.
\<close>

definition move_waypoint ::
  "(border \<Rightarrow> point \<Rightarrow> point \<Rightarrow> error + point) \<Rightarrow> real \<Rightarrow> border \<Rightarrow> point list
     \<Rightarrow> error + point list" where
  "move_waypoint relocate vs b wps =
     (if wps = [] then Inl IndexError
      else (case distance_to_border (last wps) b of
              Inl e \<Rightarrow> Inl e
            | Inr dist_to_border \<Rightarrow>
                if any_too_close vs dist_to_border
                then (case find_count vs b (tl (rev wps)) 1 of
                        Inl e \<Rightarrow> Inl e
                      | Inr count \<Rightarrow>
                          (case relocate b (wps ! (length wps - 1 - count)) (last wps) of
                             Inl e \<Rightarrow> Inl e
                           | Inr new_waypoint \<Rightarrow>
                               Inr (take (length wps - count) wps @ [new_waypoint])))
                else Inr wps))"

section \<open>Frames\<close>

datatype frame_type = Shift | MinNobs

record frame =
  frame_type :: frame_type
  border :: border
  waypoints :: "point list"
  stationary_obstacles :: "obstacle list"
  endpoint_frame :: point

text \<open>
  \<^verbatim>\<open>create_next_frame(frame)\<close>: \<open>None\<close> when the endpoint of \<open>frame\<close> is the
  goal state.
\<close>

definition create_next_frame :: "problem \<Rightarrow> frame \<Rightarrow> error + frame option" where
  "create_next_frame self fr =
     (if endpoint_frame fr \<noteq> goal_state self
      then (case get_min_nobs_frame self (endpoint_frame fr) of
              Inl e \<Rightarrow> Inl e
            | Inr next_frame \<Rightarrow>
           (case scale_up_frame self next_frame of
              Inl e \<Rightarrow> Inl e
            | Inr (next_border, next_waypoints) \<Rightarrow>
           (case move_waypoint (relocate_waypoint_next self) (veh_size self)
                   next_border next_waypoints of
              Inl e \<Rightarrow> Inl e
            | Inr wps \<Rightarrow>
           (case get_stationary_obstacles_in_frame (obstacles (environment self)) next_border of
              Inl e \<Rightarrow> Inl e
            | Inr stationary \<Rightarrow>
                Inr (Some \<lparr> frame_type = MinNobs, border = next_border, waypoints = wps,
                            stationary_obstacles = stationary,
                            endpoint_frame = last wps \<rparr>)))))
      else Inr None)"

text \<open>
  The branch of \<^verbatim>\<open>create_frame\<close> for the type \<^verbatim>\<open>min_nobs\<close>: the new frame and the
  next frame.
\<close>

definition create_frame_min_nobs :: "problem \<Rightarrow> error + frame \<times> frame option" where
  "create_frame_min_nobs self =
     (case get_min_nobs_frame self (curr_state self) of
        Inl e \<Rightarrow> Inl e
      | Inr fr0 \<Rightarrow>
     (case scale_up_frame self fr0 of
        Inl e \<Rightarrow> Inl e
      | Inr (scaled_border, scaled_waypoints) \<Rightarrow>
     (case move_waypoint (relocate_waypoint self) (veh_size self)
             scaled_border scaled_waypoints of
        Inl e \<Rightarrow> Inl e
      | Inr wps \<Rightarrow>
     (case get_stationary_obstacles_in_frame (obstacles (environment self)) scaled_border of
        Inl e \<Rightarrow> Inl e
      | Inr stationary \<Rightarrow>
          let fr = \<lparr> frame_type = MinNobs, border = scaled_border, waypoints = wps,
                     stationary_obstacles = stationary, endpoint_frame = last wps \<rparr>
          in (case create_next_frame self fr of
                Inl e \<Rightarrow> Inl e
              | Inr next_frame \<Rightarrow> Inr (fr, next_frame))))))"

section \<open>The shift frame\<close>

text \<open>
  \<^verbatim>\<open>move_frame(delta_x, delta_y, move_limit)\<close>: the limits of the frame of fixed size
  shifted towards a waypoint and cut at the limits of the environment.
  Modelled from the spec: \<^verbatim>\<open>environment.get_canvas_limits()\<close>, which is not among the
  sources, gives the outer bounds of the environment; they are the limits of the room.
\<close>

definition move_frame :: "problem \<Rightarrow> real \<Rightarrow> real \<Rightarrow> real \<Rightarrow> limits" where
  "move_frame self delta_x delta_y move_limit =
     (let half = frame_size self * 0.5;
          margin = veh_size self * scale_factor;
          (newx_lower, newx_upper) =
            (if \<bar>delta_x\<bar> > half
             then (let move = min move_limit (\<bar>delta_x\<bar> - half + margin)
                   in if delta_x > 0 then (half - move, half + move)
                      else (half + move, half - move))
             else (half, half));
          (newy_lower, newy_upper) =
            (if \<bar>delta_y\<bar> > half
             then (let move = min move_limit (\<bar>delta_y\<bar> - half + margin)
                   in if delta_y > 0 then (half - move, half + move)
                      else (half + move, half - move))
             else (half, half));
          newx_min = fst (curr_state self) - newx_lower;
          newy_min = snd (curr_state self) - newy_lower;
          newx_max = fst (curr_state self) + newx_upper;
          newy_max = snd (curr_state self) + newy_upper;
          env = environment self;
          newx_min = (if newx_min < room_xmin env then room_xmin env else newx_min);
          newx_max = (if newx_max > room_xmax env then room_xmax env else newx_max);
          newy_min = (if newy_min < room_ymin env then room_ymin env else newy_min);
          newy_max = (if newy_max > room_ymax env then room_ymax env else newy_max)
      in (newx_min, newy_min, newx_max, newy_max))"

type_synonym line = "point \<times> point"

text \<open>
  \<^verbatim>\<open>find_intersection_line_frame(line)\<close>. The functions
  \<^verbatim>\<open>intersect_line_segments\<close> and \<^verbatim>\<open>intersect_lines\<close> of the geometry module are
  not among the sources; they are arguments of the model.
\<close>

definition find_intersection_line_frame ::
  "(line \<Rightarrow> line \<Rightarrow> bool) \<Rightarrow> (line \<Rightarrow> line \<Rightarrow> point) \<Rightarrow> border \<Rightarrow> line \<Rightarrow> error + point" where
  "find_intersection_line_frame intersect_line_segments intersect_lines b line =
     (case limits b of (x3, y3, x4, y4) \<Rightarrow>
        let top_side = ((x3, y4), (x4, y4));
            right_side = ((x4, y4), (x4, y3));
            bottom_side = ((x4, y3), (x3, y3));
            left_side = ((x3, y3), (x3, y4))
        in if intersect_line_segments line top_side then Inr (intersect_lines line top_side)
           else if intersect_line_segments line right_side
           then Inr (intersect_lines line right_side)
           else if intersect_line_segments line bottom_side
           then Inr (intersect_lines line bottom_side)
           else if intersect_line_segments line left_side
           then Inr (intersect_lines line left_side)
           else Inl ValueError)"

text \<open>
  The first loop of the shift branch of \<^verbatim>\<open>create_frame\<close>, over the global path. Its
  variables: the waypoints collected for the frame, the first waypoint that stays
  outside after the largest shift (it ends the loop), the goal when it is outside the
  first border but within reach of a shift, and the last \<^verbatim>\<open>delta_x, delta_y\<close>.
\<close>

record scan =
  scan_points :: "point list"
  scan_waypoint :: "point option"
  scan_endpoint :: "point option"
  scan_delta :: "(real \<times> real) option"

fun scan_path :: "problem \<Rightarrow> border \<Rightarrow> real \<Rightarrow> point \<Rightarrow> point list \<Rightarrow> scan \<Rightarrow> scan" where
  "scan_path self b move_limit last_point [] st = st"
| "scan_path self b move_limit last_point (point # rest) st =
     (if \<not> point_in_frame point b 0
      then (let delta_x = fst point - fst (curr_state self);
                delta_y = snd point - snd (curr_state self)
            in if \<bar>delta_x\<bar> > move_limit + frame_size self * 0.5
                  \<or> \<bar>delta_y\<bar> > move_limit + frame_size self * 0.5
               then st\<lparr>scan_waypoint := Some point, scan_delta := Some (delta_x, delta_y)\<rparr>
               else if point = last_point
               then scan_path self b move_limit last_point rest
                      (st\<lparr>scan_endpoint := Some point, scan_delta := Some (delta_x, delta_y)\<rparr>)
               else scan_path self b move_limit last_point rest
                      (st\<lparr>scan_points := scan_points st @ [point],
                          scan_delta := Some (delta_x, delta_y)\<rparr>))
      else scan_path self b move_limit last_point rest
             (st\<lparr>scan_points := scan_points st @ [point]\<rparr>))"

text \<open>
  The position of the shift frame and its endpoint, lines 311 to 331: the limits, the
  border and the endpoint.
\<close>

definition place_shift_frame ::
  "(line \<Rightarrow> line \<Rightarrow> bool) \<Rightarrow> (line \<Rightarrow> line \<Rightarrow> point) \<Rightarrow> problem \<Rightarrow> limits \<Rightarrow> real \<Rightarrow> scan
     \<Rightarrow> error + limits \<times> border \<times> point" where
  "place_shift_frame intersect_line_segments intersect_lines self lims0 move_limit st =
     (case scan_waypoint st of
        Some waypoint \<Rightarrow>
          (case scan_delta st of
             None \<Rightarrow> Inl UnboundLocalError
           | Some (delta_x, delta_y) \<Rightarrow>
               (case move_frame self delta_x delta_y move_limit of (xmin, ymin, xmax, ymax) \<Rightarrow>
                  let b = make_border xmin ymin xmax ymax
                  in if scan_points st = [] then Inl IndexError
                     else (case find_intersection_line_frame intersect_line_segments
                                  intersect_lines b (last (scan_points st), waypoint) of
                             Inl e \<Rightarrow> Inl e
                           | Inr intersection_point \<Rightarrow>
                               (case shift_point_back (last (scan_points st)) intersection_point
                                       0 (veh_size self * scale_factor) of
                                  Inl e \<Rightarrow> Inl e
                                | Inr endpoint \<Rightarrow> Inr ((xmin, ymin, xmax, ymax), b, endpoint)))))
      | None \<Rightarrow>
          (case scan_endpoint st of
             Some endpoint \<Rightarrow>
               (case scan_delta st of
                  None \<Rightarrow> Inl UnboundLocalError
                | Some (delta_x, delta_y) \<Rightarrow>
                    (case move_frame self delta_x delta_y move_limit of
                       (xmin, ymin, xmax, ymax) \<Rightarrow>
                         Inr ((xmin, ymin, xmax, ymax), make_border xmin ymin xmax ymax, endpoint)))
           | None \<Rightarrow>
               (case lims0 of (xmin, ymin, xmax, ymax) \<Rightarrow>
                  if global_path self = [] then Inl IndexError
                  else Inr (lims0, make_border xmin ymin xmax ymax, last (global_path self)))))"

text \<open>
  The branch of \<^verbatim>\<open>create_frame\<close> for the type \<^verbatim>\<open>shift\<close>.
\<close>

definition create_frame_shift ::
  "(line \<Rightarrow> line \<Rightarrow> bool) \<Rightarrow> (line \<Rightarrow> line \<Rightarrow> point) \<Rightarrow> problem \<Rightarrow> error + frame" where
  "create_frame_shift intersect_line_segments intersect_lines self =
     (let xmin = fst (curr_state self) - frame_size self * 0.5;
          ymin = snd (curr_state self) - frame_size self * 0.5;
          xmax = fst (curr_state self) + frame_size self * 0.5;
          ymax = snd (curr_state self) + frame_size self * 0.5;
          b0 = make_border xmin ymin xmax ymax;
          move_limit = frame_size self * 0.25;
          st = scan_path self b0 move_limit (last (global_path self)) (global_path self)
                 \<lparr>scan_points = [], scan_waypoint = None, scan_endpoint = None,
                  scan_delta = None\<rparr>
      in case place_shift_frame intersect_line_segments intersect_lines self
                (xmin, ymin, xmax, ymax) move_limit st of
           Inl e \<Rightarrow> Inl e
         | Inr ((xmin, ymin, xmax, ymax), b, endpoint) \<Rightarrow>
        (case distance_to_border endpoint b of
           Inl e \<Rightarrow> Inl e
         | Inr dist_to_border \<Rightarrow>
             let x_close = (\<bar>fst dist_to_border\<bar> \<le> veh_size self);
                 move_x = (veh_size self - \<bar>fst dist_to_border\<bar>) * scale_factor;
                 xmin = (if x_close \<and> fst dist_to_border \<le> 0 then xmin - move_x else xmin);
                 xmax = (if x_close \<and> \<not> fst dist_to_border \<le> 0 then xmax + move_x else xmax);
                 b = (if x_close then make_border xmin ymin xmax ymax else b);
                 y_close = (\<bar>snd dist_to_border\<bar> \<le> veh_size self);
                 move_y = (veh_size self - \<bar>snd dist_to_border\<bar>) * scale_factor;
                 ymin = (if y_close \<and> snd dist_to_border \<le> 0 then ymin - move_y else ymin);
                 ymax = (if y_close \<and> \<not> snd dist_to_border \<le> 0 then ymax + move_y else ymax);
                 b = (if y_close then make_border xmin ymin xmax ymax else b)
             in (case get_stationary_obstacles_in_frame (obstacles (environment self)) b of
                   Inl e \<Rightarrow> Inl e
                 | Inr stationary \<Rightarrow>
                     if scan_points st = [] then Inl IndexError
                     else Inr \<lparr> frame_type = Shift, border = b,
                                waypoints = (if endpoint \<noteq> last (scan_points st)
                                             then scan_points st @ [endpoint]
                                             else scan_points st),
                                stationary_obstacles = stationary,
                                endpoint_frame = endpoint \<rparr>)))"

section \<open>Validity of the active frame\<close>



section \<open>Moving obstacles\<close>

text \<open>
  Python 2's \<^verbatim>\<open>round\<close> rounds halves away from zero; \<^verbatim>\<open>int\<close> of its result is
  exact.
\<close>

definition py_round :: "real \<Rightarrow> int" where
  "py_round x = (if 0 \<le> x then \<lfloor>x + 1 / 2\<rfloor> else \<lceil>x - 1 / 2\<rceil>)"

text \<open>
  \<^verbatim>\<open>point_in_frame(point, time=..., velocity=...)\<close>: the point, moving with constant
  velocity, is sampled \<open>N + 1\<close> times over the motion time of the problem. The sample
  time is a division by \<open>N\<close>.
\<close>

definition point_in_frame_time :: "point \<Rightarrow> real \<Rightarrow> point \<Rightarrow> border \<Rightarrow> error + bool" where
  "point_in_frame_time point mtime velocity b =
     (case limits b of (xmin, ymin, xmax, ymax) \<Rightarrow>
        let N = py_round (mtime / 0.5) + 1
        in if N = 0 then Inl ZeroDivisionError
           else (let Ts = mtime / real_of_int N;
                     x = fst point; y = snd point;
                     vx = fst velocity; vy = snd velocity
                 in Inr (list_ex
                           (\<lambda>l. (xmin \<le> x + real_of_int l * Ts * vx
                                  \<and> x + real_of_int l * Ts * vx \<le> xmax)
                               \<and> (ymin \<le> y + real_of_int l * Ts * vy
                                  \<and> y + real_of_int l * Ts * vy \<le> ymax))
                           [0..N])))"

text \<open>
  Modelled from the spec: \<^verbatim>\<open>get_checkpoints\<close> and \<^verbatim>\<open>rotate\<close> of the shape module,
  which is not among the sources: the checkpoints of a rectangle are its vertices around
  its own origin, and \<^verbatim>\<open>rotate\<close> turns a point by the orientation.
\<close>

definition get_checkpoints :: "real \<Rightarrow> real \<Rightarrow> point list" where
  "get_checkpoints width height =
     [(width / 2, height / 2), (- (width / 2), height / 2),
      (- (width / 2), - (height / 2)), (width / 2, - (height / 2))]"

definition rotate :: "real \<Rightarrow> point \<Rightarrow> point" where
  "rotate orient chck =
     (cos orient * fst chck - sin orient * snd chck,
      sin orient * fst chck + cos orient * snd chck)"

text \<open>
  The checkpoints of an obstacle at their place in the room, in the order of the vertex
  loop. Those of a rectangle are rotated by its orientation; a circle has no orientation,
  and its checkpoints are its centre and the corners of its bounding square. The position
  of the obstacle is added to each.
\<close>

definition obstacle_vertices :: "obstacle \<Rightarrow> point list" where
  "obstacle_vertices ob =
     (case ob_shape ob of
        Rectangle width height orient \<Rightarrow>
          map (\<lambda>chck. (fst (rotate orient chck) + fst (ob_position ob),
                        snd (rotate orient chck) + snd (ob_position ob)))
            (get_checkpoints width height)
      | Circle radius \<Rightarrow>
          (case get_canvas_limits (Circle radius) of ((xmin, xmax), (ymin, ymax)) \<Rightarrow>
             map (\<lambda>chck. (fst chck + fst (ob_position ob), snd chck + snd (ob_position ob)))
               [(0, 0), (xmin, ymin), (xmin, ymax), (xmax, ymax), (xmax, ymin)]))"

text \<open>
  The loop over the checkpoints of one moving obstacle. Its state is the option
  \<^verbatim>\<open>avoid\<close> of the obstacle and the variable \<^verbatim>\<open>obs_change\<close>; a checkpoint inside
  the frame ends the loop.
\<close>

fun check_vertices ::
  "border \<Rightarrow> real \<Rightarrow> point \<Rightarrow> bool \<Rightarrow> point list \<Rightarrow> bool \<Rightarrow> bool \<Rightarrow> error + bool \<times> bool" where
  "check_vertices b mtime obs_vel avoid_old [] avoid_now obs_change =
     Inr (avoid_now, obs_change)"
| "check_vertices b mtime obs_vel avoid_old (vertex # rest) avoid_now obs_change =
     (case point_in_frame_time vertex mtime obs_vel b of
        Inl e \<Rightarrow> Inl e
      | Inr inside \<Rightarrow>
          if inside then Inr (True, True \<noteq> avoid_old)
          else if avoid_now
          then check_vertices b mtime obs_vel avoid_old rest False True
          else check_vertices b mtime obs_vel avoid_old rest avoid_now obs_change)"

definition is_moving :: "obstacle \<Rightarrow> bool" where
  "is_moving ob = (\<not> (fst (ob_velocity ob) = 0 \<and> snd (ob_velocity ob) = 0))"

text \<open>
  The loop of \<^verbatim>\<open>get_moving_obstacles_in_frame\<close> over the obstacles of the environment.
  The result is the environment's obstacles with their new options, the list
  \<^verbatim>\<open>moving_obstacles\<close> (the obstacles are shared, so the list shows the new options)
  and \<^verbatim>\<open>obs_change\<close>.
\<close>

fun moving_loop ::
  "border \<Rightarrow> real \<Rightarrow> obstacle list \<Rightarrow> bool
     \<Rightarrow> error + obstacle list \<times> obstacle list \<times> bool" where
  "moving_loop b mtime [] obs_change = Inr ([], [], obs_change)"
| "moving_loop b mtime (ob # obs) obs_change =
     (if is_moving ob
      then (case check_vertices b mtime (ob_velocity ob) (avoid ob) (obstacle_vertices ob)
                   (avoid ob) obs_change of
              Inl e \<Rightarrow> Inl e
            | Inr (avoid_new, obs_change_new) \<Rightarrow>
                (case moving_loop b mtime obs obs_change_new of
                   Inl e \<Rightarrow> Inl e
                 | Inr (obs_new, moving_obstacles, obs_change_end) \<Rightarrow>
                     Inr (ob\<lparr>avoid := avoid_new\<rparr> # obs_new,
                          ob\<lparr>avoid := avoid_new\<rparr> # moving_obstacles,
                          obs_change_end)))
      else (case moving_loop b mtime obs obs_change of
              Inl e \<Rightarrow> Inl e
            | Inr (obs_new, moving_obstacles, obs_change_end) \<Rightarrow>
                Inr (ob # obs_new, moving_obstacles, obs_change_end)))"

text \<open>
  \<^verbatim>\<open>get_moving_obstacles_in_frame\<close>. The attribute \<^verbatim>\<open>_moving_obs\<close> is absent before
  the first call; it and the obstacles are the state the call changes.
\<close>

record moving_result =
  moving_obstacles :: "obstacle list"
  obs_change :: bool
  new_obstacles :: "obstacle list"
  new_moving_obs :: "obstacle list option"

definition get_moving_obstacles_in_frame ::
  "border \<Rightarrow> real \<Rightarrow> obstacle list \<Rightarrow> obstacle list option \<Rightarrow> error + moving_result" where
  "get_moving_obstacles_in_frame b mtime obs moving_obs_old =
     (case moving_loop b mtime obs False of
        Inl e \<Rightarrow> Inl e
      | Inr (obs_new, moving, change) \<Rightarrow>
          Inr \<lparr> moving_obstacles = moving,
                obs_change = (case moving_obs_old of
                                None \<Rightarrow> change
                              | Some old \<Rightarrow> if length old \<noteq> length moving then True else change),
                new_obstacles = obs_new,
                new_moving_obs = Some moving \<rparr>)"

section \<open>The checkpoint test as a predicate\<close>

text \<open>
  An obstacle is swept into the frame when the sampled trajectory of one of its
  checkpoints, moving with the obstacle's velocity over the motion time, has a sample
  inside the border.
\<close>

definition swept_into_frame :: "border \<Rightarrow> real \<Rightarrow> obstacle \<Rightarrow> bool" where
  "swept_into_frame b mtime ob =
     list_ex (\<lambda>vertex. point_in_frame_time vertex mtime (ob_velocity ob) b = Inr True)
       (obstacle_vertices ob)"

section \<open>The room as a region\<close>


section \<open>Scenarios\<close>

text \<open>
  A room of 10 by 10 around the origin and a circular vehicle of radius 0.3, in four
  situations. In the first a flat obstacle stands against the right wall,
  \<open>[4.92, 5] \<times> [-0.5, 0.5]\<close>, and the vehicle at \<open>(4.25, 0)\<close> has its goal
  at \<open>(4.4, 0)\<close>.
\<close>

definition wall_obstacle :: obstacle where
  "wall_obstacle =
     \<lparr> ob_shape = Rectangle 0.08 1 0, ob_position = (4.96, 0), ob_velocity = (0, 0),
       traj_velocity = None, avoid = True \<rparr>"

definition wall_problem :: problem where
  "wall_problem =
     \<lparr> environment = \<lparr> room_shape = Rectangle 10 10 0, room_position = (0, 0),
                        obstacles = [wall_obstacle] \<rparr>,
       veh_size = 0.3, global_path = [(4.25, 0), (4.4, 0)],
       goal_state = (4.4, 0), curr_state = (4.25, 0), frame_size = 2.5, motion_time = 0 \<rparr>"

text \<open>
  In the second a block \<open>[1, 3] \<times> [1, 3]\<close> lies beside a path that runs from the
  origin along the x-axis and then up to the goal \<open>(4, 4)\<close>.
\<close>

definition block_obstacle :: obstacle where
  "block_obstacle =
     \<lparr> ob_shape = Rectangle 2 2 0, ob_position = (2, 2), ob_velocity = (0, 0),
       traj_velocity = None, avoid = True \<rparr>"

definition block_path :: "point list" where
  "block_path =
     [(0, 0), (1, 0), (2, 0), (3, 0), (4, 0), (4, 0.5), (4, 0.9), (4, 1.3), (4, 2), (4, 3),
      (4, 4)]"

definition block_problem :: problem where
  "block_problem =
     \<lparr> environment = \<lparr> room_shape = Rectangle 10 10 0, room_position = (0, 0),
                        obstacles = [block_obstacle] \<rparr>,
       veh_size = 0.3, global_path = block_path,
       goal_state = (4, 4), curr_state = (0, 0), frame_size = 2.5, motion_time = 0 \<rparr>"






text \<open>
  In the third a fence \<open>[-1, 1] \<times> [0.4, 0.6]\<close> separates the vehicle at the origin
  from its goal \<open>(0, 1)\<close>, and the path leads around the right end of the fence.
\<close>

definition fence_obstacle :: obstacle where
  "fence_obstacle =
     \<lparr> ob_shape = Rectangle 2 0.2 0, ob_position = (0, 0.5), ob_velocity = (0, 0),
       traj_velocity = None, avoid = True \<rparr>"

definition fence_problem :: problem where
  "fence_problem =
     \<lparr> environment = \<lparr> room_shape = Rectangle 10 10 0, room_position = (0, 0),
                        obstacles = [fence_obstacle] \<rparr>,
       veh_size = 0.3, global_path = [(0, 0), (1.5, 0), (1.5, 1), (0, 1)],
       goal_state = (0, 1), curr_state = (0, 0), frame_size = 2.5, motion_time = 0 \<rparr>"

text \<open>
  In the fourth the frame is \<open>[4, 6] \<times> [4, 6]\<close> and the motion time is 2. Two unit
  squares move inside it: one was not avoided so far, the other was. A third moves far
  away from it.
\<close>

definition entering_obstacle :: obstacle where
  "entering_obstacle =
     \<lparr> ob_shape = Rectangle 1 1 0, ob_position = (5, 5), ob_velocity = (1, 0),
       traj_velocity = Some [(1, 0)], avoid = False \<rparr>"

definition staying_obstacle :: obstacle where
  "staying_obstacle =
     \<lparr> ob_shape = Rectangle 1 1 0, ob_position = (4.5, 4.5), ob_velocity = (0, 1),
       traj_velocity = Some [(0, 1)], avoid = True \<rparr>"

definition distant_obstacle :: obstacle where
  "distant_obstacle =
     \<lparr> ob_shape = Rectangle 1 1 0, ob_position = (-3, -3), ob_velocity = (0, -1),
       traj_velocity = Some [(0, -1)], avoid = False \<rparr>"

section \<open>Properties\<close>

subsection \<open>The divisions of \<open>move_back\<close> are defined\<close>

lemma cos_arctan2_nonzero: "x \<noteq> 0 \<Longrightarrow> cos (arctan2 y x) \<noteq> 0"
  by (simp add: arctan2_def)

lemma sin_arctan2_nonzero:
  assumes "y \<noteq> 0"
  shows "sin (arctan2 y x) \<noteq> 0"
proof -
  have "1 + t\<^sup>2 \<noteq> 0" for t :: real
    by (metis add_nonneg_eq_0_iff zero_le_power2 zero_le_one zero_neq_one)
  then have a: "sin (arctan t) = 0 \<longleftrightarrow> t = 0" for t :: real
    by (simp add: sin_arctan)
  show ?thesis
    using assms by (simp add: arctan2_def a)
qed

text \<open>
  C10. The stop criterion is truthy exactly when the active frame's endpoint is the goal
  state and the local problem's criterion holds; with any other endpoint it is falsy.
\<close>

theorem stop_criterium_truthy_iff:
  "truthy (stop_criterium endpoint goal local_stop) = (endpoint = goal \<and> local_stop)"
  by (simp add: stop_criterium_def truthy_def)

text \<open>
  C9. With a positive distance and a move-back distance of at least the segment's length,
  \<^verbatim>\<open>shift_point_back\<close> returns the start point and raises nothing.
\<close>

theorem shift_point_back_clamps_to_start:
  assumes "0 < d"
    and "segment_length start end \<le> move_back start end d"
  shows "shift_point_back start end 0 d = Inr start"
  using assms by (simp add: shift_point_back_def Let_def)

theorem shift_point_back_clamps_to_start_witness:
  "(0::real) < 1
   \<and> segment_length (0, 0) (1, 0) \<le> move_back (0, 0) (1, 0) 1
   \<and> shift_point_back (0, 0) (1, 0) 0 1 = Inr (0, 0)"
  using shift_point_back_clamps_to_start [of 1 "(0, 0)" "(1, 0)"]
  by (simp add: segment_length_def move_back_def)

subsection \<open>Evaluation of the geometry\<close>

lemma limits_make_border [simp]:
  "limits (make_border xmin ymin xmax ymax) = (xmin, ymin, xmax, ymax)"
  by (simp add: make_border_def)

lemma line_distance_vertical:
  assumes "ya \<noteq> yb"
  shows "line_distance (x, ya) (x, yb) p = \<bar>fst p - x\<bar>"
proof -
  have "(yb - ya) * fst p + x * ya - yb * x = (yb - ya) * (fst p - x)"
    by (simp add: algebra_simps)
  then have "\<bar>(yb - ya) * fst p + x * ya - yb * x\<bar> = \<bar>yb - ya\<bar> * \<bar>fst p - x\<bar>"
    by (simp add: abs_mult)
  with assms show ?thesis by (simp add: line_distance_def)
qed

lemma line_distance_horizontal:
  assumes "xa \<noteq> xb"
  shows "line_distance (xa, y) (xb, y) p = \<bar>snd p - y\<bar>"
proof -
  have "- ((xb - xa) * snd p) + xb * y - y * xa = (xb - xa) * (y - snd p)"
    by (simp add: algebra_simps)
  then have "\<bar>- ((xb - xa) * snd p) + xb * y - y * xa\<bar> = \<bar>xb - xa\<bar> * \<bar>snd p - y\<bar>"
    by (simp add: abs_mult abs_minus_commute)
  with assms show ?thesis by (simp add: line_distance_def)
qed

text \<open>
  For a border with a width and a height the distances are those to the nearer vertical
  and the nearer horizontal side, negative towards the left and the lower side.
\<close>

lemma distance_to_border_eq:
  assumes "limits b = (xmin, ymin, xmax, ymax)" and "xmin \<noteq> xmax" and "ymin \<noteq> ymax"
  shows "distance_to_border p b =
     Inr (if \<bar>fst p - xmin\<bar> < \<bar>fst p - xmax\<bar> then - \<bar>fst p - xmin\<bar> else \<bar>fst p - xmax\<bar>,
          if \<bar>snd p - ymax\<bar> < \<bar>snd p - ymin\<bar> then \<bar>snd p - ymax\<bar> else - \<bar>snd p - ymin\<bar>)"
  using assms
  by (simp add: distance_to_border_def Let_def line_distance_vertical line_distance_horizontal)

lemma distance_to_border_make:
  assumes "xmin \<noteq> xmax" and "ymin \<noteq> ymax"
  shows "distance_to_border p (make_border xmin ymin xmax ymax) =
     Inr (if \<bar>fst p - xmin\<bar> < \<bar>fst p - xmax\<bar> then - \<bar>fst p - xmin\<bar> else \<bar>fst p - xmax\<bar>,
          if \<bar>snd p - ymax\<bar> < \<bar>snd p - ymin\<bar> then \<bar>snd p - ymax\<bar> else - \<bar>snd p - ymin\<bar>)"
  using assms by (rule distance_to_border_eq [OF limits_make_border])

lemma sqrt_less_iff_sq: "0 \<le> y \<Longrightarrow> sqrt x < y \<longleftrightarrow> x < y\<^sup>2"
  by (metis real_sqrt_less_iff real_sqrt_abs abs_of_nonneg)

lemma arctan2_pos: "0 < x \<Longrightarrow> arctan2 y x = arctan (y / x)"
  by (simp add: arctan2_def)

lemma sin_arctan_zero_iff: "sin (arctan t) = 0 \<longleftrightarrow> t = 0"
proof -
  have "1 + t\<^sup>2 \<noteq> 0"
    by (metis add_nonneg_eq_0_iff zero_le_power2 zero_le_one zero_neq_one)
  then show ?thesis by (simp add: sin_arctan)
qed

lemmas env_defs = room_xmin_def room_xmax_def room_ymin_def room_ymax_def get_canvas_limits_def
  obstacle_box_def overlaps_def is_stationary_def supported_shape_def
  point_in_frame_def scale_factor_def

subsection \<open>The vehicle size\<close>

text \<open>
  C5, as the code has it. The attribute \<^verbatim>\<open>veh_size\<close> is the radius of a circle and the
  larger full side of a rectangle, and the safety factor is 1.2. Their product is the
  envelope of the specification for a circle and twice that envelope for a rectangle.
  The test for a waypoint too close to the border compares with \<^verbatim>\<open>veh_size\<close>
  itself, without the factor.
\<close>

theorem veh_size_and_margin:
  "init_veh_size (Circle r) = r
   \<and> init_veh_size (Rectangle w h a) = max w h
   \<and> scale_factor = 6 / 5
   \<and> init_veh_size (Circle r) * scale_factor = spec_vehicle_envelope (Circle r)
   \<and> init_veh_size (Rectangle w h a) * scale_factor
       = 2 * spec_vehicle_envelope (Rectangle w h a)
   \<and> too_close (init_veh_size sh) d = (\<bar>d\<bar> \<le> init_veh_size sh)"
  by (simp add: init_veh_size_def scale_factor_def spec_vehicle_envelope_def too_close_def
      max_def)

text \<open>
  For a rectangular vehicle of 1 by 0.5 the margin of the code is 1.2 and the specified
  envelope 0.6; for a circular vehicle of radius 0.3 a distance of 0.33 is inside the
  specified envelope of 0.36 and still not too close for the code.
\<close>

theorem envelope_counterexample:
  "init_veh_size (Rectangle 1 (1 / 2) 0) * scale_factor
     \<noteq> spec_vehicle_envelope (Rectangle 1 (1 / 2) 0)
   \<and> too_close (init_veh_size (Circle (3 / 10))) (33 / 100)
     \<noteq> (\<bar>33 / 100\<bar> \<le> spec_vehicle_envelope (Circle (3 / 10)))"
  by (simp add: init_veh_size_def scale_factor_def spec_vehicle_envelope_def too_close_def)

subsection \<open>A min-nobs frame that holds a stationary obstacle\<close>

lemma wall_get_min_nobs_frame:
  "get_min_nobs_frame wall_problem (4.25, 0)
     = Inr (make_border 3.89 (-0.36) 4.61 0.36, [(4.25, 0), (4.4, 0)])"
  by (simp add: get_min_nobs_frame_def wall_problem_def wall_obstacle_def env_defs Let_def
      room_dimension_def distance_between_points_def)

text \<open>
  Upwards in x the limit of the room is tried first and refused because of the obstacle;
  the loop then reaches 4.91, its next candidate 5.01 lies beyond the room, and the limit
  5 is committed without a query. With the obstacle inside, no other direction grows.
\<close>

lemma wall_scale_up_frame:
  "scale_up_frame wall_problem (make_border 3.89 (-0.36) 4.61 0.36, [(4.25, 0), (4.4, 0)])
     = Inr (make_border 3.89 (-0.36) 5 0.36, [(4.25, 0), (4.4, 0)])"
  by (simp add: scale_up_frame_def scale_direction_def scale_loop.simps wall_problem_def
      wall_obstacle_def env_defs Let_def)

lemma wall_move_waypoint:
  "move_waypoint relocate 0.3 (make_border 3.89 (-0.36) 5 0.36) [(4.25, 0), (4.4, 0)]
     = Inr [(4.25, 0), (4.4, 0)]"
  by (simp add: move_waypoint_def distance_to_border_make any_too_close_def too_close_def)

lemma wall_stationary:
  "get_stationary_obstacles_in_frame [wall_obstacle] (make_border 3.89 (-0.36) 5 0.36)
     = Inr [wall_obstacle]"
  by (simp add: wall_obstacle_def env_defs)

lemma wall_problem_fields:
  "curr_state wall_problem = (4.25, 0)"
  "veh_size wall_problem = 0.3"
  "obstacles (environment wall_problem) = [wall_obstacle]"
  "goal_state wall_problem = (4.4, 0)"
  by (simp_all add: wall_problem_def)

text \<open>
  C1, at the first scenario. The frame that \<^verbatim>\<open>create_frame\<close> commits for the type
  \<^verbatim>\<open>min_nobs\<close> has the border \<open>[3.89, 5] \<times> [-0.36, 0.36]\<close>, and the query of the
  stationary obstacles in that border returns the obstacle at the wall.
\<close>

theorem min_nobs_frame_holds_obstacle:
  "create_frame_min_nobs wall_problem =
     Inr (\<lparr> frame_type = MinNobs, border = make_border 3.89 (-0.36) 5 0.36,
             waypoints = [(4.25, 0), (4.4, 0)], stationary_obstacles = [wall_obstacle],
             endpoint_frame = (4.4, 0) \<rparr>, None)"
  using wall_get_min_nobs_frame wall_scale_up_frame wall_stationary
    wall_move_waypoint [of "relocate_waypoint wall_problem"]
  by (simp add: create_frame_min_nobs_def create_next_frame_def wall_problem_fields)

subsection \<open>A relocated waypoint off the line and off the distance\<close>

lemmas block_defs = block_problem_def block_obstacle_def block_path_def

lemma block_get_min_nobs_frame:
  "get_min_nobs_frame block_problem (0, 0)
     = Inr (make_border (-0.36) (-0.36) 4.36 0.86,
            [(0, 0), (1, 0), (2, 0), (3, 0), (4, 0), (4, 0.5)])"
  by (simp add: get_min_nobs_frame_def update_frame_with_waypoint_def block_defs env_defs
      Let_def room_dimension_def distance_between_points_def sqrt_less_iff_sq
      power2_eq_square)

lemma block_scale_up_frame:
  "scale_up_frame block_problem
       (make_border (-0.36) (-0.36) 4.36 0.86,
        [(0, 0), (1, 0), (2, 0), (3, 0), (4, 0), (4, 0.5)])
     = Inr (make_border (-5) (-5) 5 0.96,
            [(0, 0), (1, 0), (2, 0), (3, 0), (4, 0), (4, 0.5), (4, 0.9)])"
  by (simp add: scale_up_frame_def scale_direction_def scale_loop.simps block_defs env_defs
      Let_def)

text \<open>
  The last waypoint \<open>(4, 0.9)\<close> is 0.06 below the upper border; the waypoint before
  it, \<open>(4, 0.5)\<close>, is far enough. The line between them is vertical.
\<close>

lemma block_move_waypoint:
  "move_waypoint (relocate_waypoint block_problem) 0.3 (make_border (-5) (-5) 5 0.96)
       [(0, 0), (1, 0), (2, 0), (3, 0), (4, 0), (4, 0.5), (4, 0.9)]
     = Inr [(0, 0), (1, 0), (2, 0), (3, 0), (4, 0), (4, 0.5), (3.64, 0.5)]"
  by (simp add: move_waypoint_def relocate_waypoint_def any_too_close_def too_close_def
      distance_to_border_make block_problem_def scale_factor_def arctan2_pos tan_arctan
      sin_arctan_zero_iff Let_def)

text \<open>
  The relocation as \<^verbatim>\<open>create_next_frame\<close> writes it gives, for the same frame and
  waypoints, the point of the line at the distance 0.36 from the upper border.
\<close>

lemma block_relocate_waypoint_next:
  "relocate_waypoint_next block_problem (make_border (-5) (-5) 5 0.96) (4, 0.5) (4, 0.9)
     = Inr (4, 0.6)"
  by (simp add: relocate_waypoint_next_def distance_to_border_make block_problem_def
      scale_factor_def Let_def)

lemma block_stationary:
  "get_stationary_obstacles_in_frame [block_obstacle] (make_border (-5) (-5) 5 0.96) = Inr []"
  by (simp add: block_obstacle_def env_defs)

lemma block_next_get_min_nobs_frame:
  "get_min_nobs_frame block_problem (3.64, 0.5)
     = Inr (make_border 3.28 0.14 4.36 4.36,
            [(4, 0.5), (4, 0.9), (4, 1.3), (4, 2), (4, 3), (4, 4)])"
  by (simp add: get_min_nobs_frame_def update_frame_with_waypoint_def block_defs env_defs
      Let_def room_dimension_def distance_between_points_def sqrt_less_iff_sq
      power2_eq_square)

lemma block_next_scale_up_frame:
  "scale_up_frame block_problem
       (make_border 3.28 0.14 4.36 4.36,
        [(4, 0.5), (4, 0.9), (4, 1.3), (4, 2), (4, 3), (4, 4)])
     = Inr (make_border 3.08 (-5) 5 5,
            [(4, 0.5), (4, 0.9), (4, 1.3), (4, 2), (4, 3), (4, 4)])"
  by (simp add: scale_up_frame_def scale_direction_def scale_loop.simps block_defs env_defs
      Let_def)

lemma block_next_move_waypoint:
  "move_waypoint relocate 0.3 (make_border 3.08 (-5) 5 5)
       [(4, 0.5), (4, 0.9), (4, 1.3), (4, 2), (4, 3), (4, 4)]
     = Inr [(4, 0.5), (4, 0.9), (4, 1.3), (4, 2), (4, 3), (4, 4)]"
  by (simp add: move_waypoint_def any_too_close_def too_close_def distance_to_border_make)

lemma block_next_stationary:
  "get_stationary_obstacles_in_frame [block_obstacle] (make_border 3.08 (-5) 5 5) = Inr []"
  by (simp add: block_obstacle_def env_defs)

lemma block_problem_fields:
  "curr_state block_problem = (0, 0)"
  "veh_size block_problem = 0.3"
  "obstacles (environment block_problem) = [block_obstacle]"
  "goal_state block_problem = (4, 4)"
  by (simp_all add: block_problem_def)

text \<open>
  C6, at the second scenario. \<^verbatim>\<open>create_frame\<close> replaces the last waypoint
  \<open>(4, 0.9)\<close> of the frame \<open>[-5, 5] \<times> [-5, 0.96]\<close> by \<open>(3.64, 0.5)\<close>. That point
  is not on the segment from \<open>(4, 0.5)\<close> to \<open>(4, 0.9)\<close>, and its distance to the
  upper border is 0.46, not the 0.36 that the vehicle size times the safety factor gives.
\<close>

theorem relocated_waypoint_misplaced:
  "create_frame_min_nobs block_problem =
     Inr (\<lparr> frame_type = MinNobs, border = make_border (-5) (-5) 5 0.96,
             waypoints = [(0, 0), (1, 0), (2, 0), (3, 0), (4, 0), (4, 0.5), (3.64, 0.5)],
             stationary_obstacles = [], endpoint_frame = (3.64, 0.5) \<rparr>,
          Some \<lparr> frame_type = MinNobs, border = make_border 3.08 (-5) 5 5,
                 waypoints = [(4, 0.5), (4, 0.9), (4, 1.3), (4, 2), (4, 3), (4, 4)],
                 stationary_obstacles = [], endpoint_frame = (4, 4) \<rparr>)
   \<and> distance_to_border (3.64, 0.5) (make_border (-5) (-5) 5 0.96) = Inr (1.36, 0.46)
   \<and> veh_size block_problem * scale_factor = 0.36"
proof -
  have "create_frame_min_nobs block_problem =
     Inr (\<lparr> frame_type = MinNobs, border = make_border (-5) (-5) 5 0.96,
             waypoints = [(0, 0), (1, 0), (2, 0), (3, 0), (4, 0), (4, 0.5), (3.64, 0.5)],
             stationary_obstacles = [], endpoint_frame = (3.64, 0.5) \<rparr>,
          Some \<lparr> frame_type = MinNobs, border = make_border 3.08 (-5) 5 5,
                 waypoints = [(4, 0.5), (4, 0.9), (4, 1.3), (4, 2), (4, 3), (4, 4)],
                 stationary_obstacles = [], endpoint_frame = (4, 4) \<rparr>)"
    using block_get_min_nobs_frame block_scale_up_frame block_move_waypoint block_stationary
      block_next_get_min_nobs_frame block_next_scale_up_frame block_next_stationary
      block_next_move_waypoint [of "relocate_waypoint_next block_problem"]
    by (simp add: create_frame_min_nobs_def create_next_frame_def block_problem_fields)
  moreover have "distance_to_border (3.64, 0.5) (make_border (-5) (-5) 5 0.96)
      = Inr (1.36, 0.46)"
    by (simp add: distance_to_border_make)
  moreover have "veh_size block_problem * scale_factor = 0.36"
    by (simp add: block_problem_def scale_factor_def)
  ultimately show ?thesis by simp
qed

subsection \<open>A shift frame with waypoints outside its border\<close>

text \<open>
  C2, at the third scenario. The waypoints \<open>(1.5, 0)\<close> and \<open>(1.5, 1)\<close> are outside
  the first border but within reach of a shift, so the loop collects them; the goal
  \<open>(0, 1)\<close> is inside the first border, so the frame is not shifted. The committed
  frame has the border \<open>[-1.25, 1.25] \<times> [-1.25, 1.31]\<close> and keeps both waypoints.
\<close>

theorem shift_frame_waypoint_outside:
  "create_frame_shift intersect_line_segments intersect_lines fence_problem =
     Inr \<lparr> frame_type = Shift, border = make_border (-1.25) (-1.25) 1.25 1.31,
            waypoints = [(0, 0), (1.5, 0), (1.5, 1), (0, 1)],
            stationary_obstacles = [fence_obstacle], endpoint_frame = (0, 1) \<rparr>
   \<and> \<not> point_in_frame (1.5, 0) (make_border (-1.25) (-1.25) 1.25 1.31) 0"
  by (simp add: create_frame_shift_def place_shift_frame_def fence_problem_def
      fence_obstacle_def env_defs distance_to_border_make Let_def)

subsection \<open>A flipped flag that the change report loses\<close>

lemmas moving_defs = get_moving_obstacles_in_frame_def is_moving_def obstacle_vertices_def
  get_checkpoints_def rotate_def point_in_frame_time_def py_round_def

text \<open>
  C3, at the fourth scenario. The first obstacle was not avoided and is in the frame: its
  flag flips and \<^verbatim>\<open>obs_change\<close> becomes true. The second was avoided and is in the
  frame: the branch for an unchanged flag sets \<^verbatim>\<open>obs_change\<close> back to false. The
  number of moving obstacles is that of the previous call, and the call reports no
  change.
\<close>

theorem flipped_flag_not_reported:
  "get_moving_obstacles_in_frame (make_border 4 4 6 6) 2
       [entering_obstacle, staying_obstacle] (Some [entering_obstacle, staying_obstacle])
     = Inr \<lparr> moving_obstacles = [entering_obstacle\<lparr>avoid := True\<rparr>, staying_obstacle],
             obs_change = False,
             new_obstacles = [entering_obstacle\<lparr>avoid := True\<rparr>, staying_obstacle],
             new_moving_obs = Some [entering_obstacle\<lparr>avoid := True\<rparr>, staying_obstacle] \<rparr>
   \<and> avoid (entering_obstacle\<lparr>avoid := True\<rparr>) \<noteq> avoid entering_obstacle"
  by (simp add: moving_defs entering_obstacle_def staying_obstacle_def Let_def upto.simps)

subsection \<open>The loop over the checkpoints\<close>

text \<open>
  When the loop over the checkpoints of an obstacle returns from one state, it returns
  from every state, and its result is this: with a checkpoint inside the frame the
  obstacle is avoided and the change is the difference to the old flag; without one the
  obstacle is not avoided, and the change is reported when it was avoided before.
\<close>

lemma check_vertices_char:
  assumes "check_vertices b mtime vel ao vs a oc = Inr res"
  shows "check_vertices b mtime vel ao2 vs a2 oc2 =
     Inr (if list_ex (\<lambda>v. point_in_frame_time v mtime vel b = Inr True) vs
          then (True, True \<noteq> ao2)
          else if vs = [] then (a2, oc2) else (False, a2 \<or> oc2))"
  using assms
proof (induction vs arbitrary: a oc a2 oc2 res)
  case Nil
  then show ?case by simp
next
  case (Cons v vs)
  from Cons.prems obtain inside where i: "point_in_frame_time v mtime vel b = Inr inside"
    by (auto split: sum.splits)
  show ?case
  proof (cases inside)
    case True
    with i show ?thesis by simp
  next
    case False
    with i Cons.prems obtain a' oc' where
      r: "check_vertices b mtime vel ao vs a' oc' = Inr res"
      by (auto split: if_splits)
    have step: "check_vertices b mtime vel ao2 (v # vs) a2 oc2 =
        (if a2 then check_vertices b mtime vel ao2 vs False True
         else check_vertices b mtime vel ao2 vs a2 oc2)"
      using i False by simp
    show ?thesis
    proof (cases a2)
      case True
      then show ?thesis
        unfolding step using i False Cons.IH [OF r, of False True] by simp
    next
      case a2: False
      then show ?thesis
        unfolding step using i False Cons.IH [OF r, of False oc2] by simp
    qed
  qed
qed

lemma obstacle_vertices_nonempty: "obstacle_vertices ob \<noteq> []"
  by (simp add: obstacle_vertices_def get_checkpoints_def get_canvas_limits_def
      split: shape.splits)

lemma obstacle_vertices_avoid [simp]:
  "obstacle_vertices (ob\<lparr>avoid := a\<rparr>) = obstacle_vertices ob"
  by (cases "ob_shape ob") (simp_all add: obstacle_vertices_def)

lemma is_moving_avoid [simp]: "is_moving (ob\<lparr>avoid := a\<rparr>) = is_moving ob"
  by (simp add: is_moving_def)

lemma swept_into_frame_avoid [simp]:
  "swept_into_frame b mtime (ob\<lparr>avoid := a\<rparr>) = swept_into_frame b mtime ob"
  by (simp add: swept_into_frame_def)

subsection \<open>The obstacles that the query returns\<close>

lemma moving_loop_result:
  assumes "moving_loop b mtime obs oc = Inr (obs', mov, oc')"
  shows "mov = filter is_moving obs'
       \<and> map (\<lambda>ob. ob\<lparr>avoid := False\<rparr>) obs' = map (\<lambda>ob. ob\<lparr>avoid := False\<rparr>) obs
       \<and> (\<forall>ob \<in> set mov. avoid ob = swept_into_frame b mtime ob)"
  using assms
proof (induction obs arbitrary: oc obs' mov oc')
  case Nil
  then show ?case by simp
next
  case (Cons ob obs)
  show ?case
  proof (cases "is_moving ob")
    case True
    with Cons.prems obtain a1 oc1 obs1 mov1 where
      cv: "check_vertices b mtime (ob_velocity ob) (avoid ob) (obstacle_vertices ob)
             (avoid ob) oc = Inr (a1, oc1)"
      and ml: "moving_loop b mtime obs oc1 = Inr (obs1, mov1, oc')"
      and eqs: "obs' = ob\<lparr>avoid := a1\<rparr> # obs1" "mov = ob\<lparr>avoid := a1\<rparr> # mov1"
      by (auto split: sum.splits)
    from check_vertices_char [OF cv, of "avoid ob" "avoid ob" oc] cv
    have a1: "a1 = swept_into_frame b mtime ob"
      by (auto simp: swept_into_frame_def obstacle_vertices_nonempty split: if_splits)
    from Cons.IH [OF ml] True eqs a1 show ?thesis by simp
  next
    case False
    with Cons.prems obtain obs1 where
      ml: "moving_loop b mtime obs oc = Inr (obs1, mov, oc')" and eqs: "obs' = ob # obs1"
      by (auto split: sum.splits)
    from Cons.IH [OF ml] False eqs show ?thesis by simp
  qed
qed

lemma distant_call:
  "get_moving_obstacles_in_frame (make_border 4 4 6 6) 2 [distant_obstacle] None
     = Inr \<lparr> moving_obstacles = [distant_obstacle], obs_change = False,
             new_obstacles = [distant_obstacle],
             new_moving_obs = Some [distant_obstacle] \<rparr>"
  by (simp add: moving_defs distant_obstacle_def Let_def upto.simps)

lemma distant_not_swept: "\<not> swept_into_frame (make_border 4 4 6 6) 2 distant_obstacle"
  by (simp add: swept_into_frame_def moving_defs distant_obstacle_def Let_def upto.simps)

text \<open>
  The claim C4 fails at the fourth scenario: the obstacle that moves far away from the
  frame is in the returned list, and none of its checkpoints is swept into the frame.
\<close>

theorem distant_obstacle_returned:
  "get_moving_obstacles_in_frame (make_border 4 4 6 6) 2 [distant_obstacle] None
     = Inr \<lparr> moving_obstacles = [distant_obstacle], obs_change = False,
             new_obstacles = [distant_obstacle],
             new_moving_obs = Some [distant_obstacle] \<rparr>
   \<and> \<not> swept_into_frame (make_border 4 4 6 6) 2 distant_obstacle"
  using distant_call distant_not_swept by simp

text \<open>
  C4, as the code has it. When the query returns, its list holds every obstacle of the
  environment with a velocity other than zero, in the order of the environment, swept
  into the frame or not; the call changes nothing in the environment but the flags; and
  the flag \<^verbatim>\<open>avoid\<close> of a returned obstacle tells whether one of its checkpoints is
  swept into the frame.
\<close>

theorem moving_obstacles_returned:
  assumes "get_moving_obstacles_in_frame b mtime obs moving_obs_old = Inr r"
  shows "moving_obstacles r = filter is_moving (new_obstacles r)
       \<and> map (\<lambda>ob. ob\<lparr>avoid := False\<rparr>) (new_obstacles r)
           = map (\<lambda>ob. ob\<lparr>avoid := False\<rparr>) obs
       \<and> (\<forall>ob \<in> set (moving_obstacles r). avoid ob = swept_into_frame b mtime ob)"
proof -
  from assms obtain obs' mov oc' where
    ml: "moving_loop b mtime obs False = Inr (obs', mov, oc')"
    and r: "new_obstacles r = obs'" "moving_obstacles r = mov"
    by (auto simp: get_moving_obstacles_in_frame_def split: sum.splits)
  from moving_loop_result [OF ml] r show ?thesis by simp
qed

lemma mixed_call:
  "get_moving_obstacles_in_frame (make_border 4 4 6 6) 2
       [distant_obstacle, entering_obstacle] None
     = Inr \<lparr> moving_obstacles = [distant_obstacle, entering_obstacle\<lparr>avoid := True\<rparr>],
             obs_change = True,
             new_obstacles = [distant_obstacle, entering_obstacle\<lparr>avoid := True\<rparr>],
             new_moving_obs = Some [distant_obstacle, entering_obstacle\<lparr>avoid := True\<rparr>] \<rparr>"
  by (simp add: moving_defs distant_obstacle_def entering_obstacle_def Let_def upto.simps)

theorem moving_obstacles_returned_witness:
  "get_moving_obstacles_in_frame (make_border 4 4 6 6) 2
       [distant_obstacle, entering_obstacle] None
     = Inr \<lparr> moving_obstacles = [distant_obstacle, entering_obstacle\<lparr>avoid := True\<rparr>],
             obs_change = True,
             new_obstacles = [distant_obstacle, entering_obstacle\<lparr>avoid := True\<rparr>],
             new_moving_obs = Some [distant_obstacle, entering_obstacle\<lparr>avoid := True\<rparr>] \<rparr>
   \<and> [distant_obstacle, entering_obstacle\<lparr>avoid := True\<rparr>]
       = filter is_moving [distant_obstacle, entering_obstacle\<lparr>avoid := True\<rparr>]
   \<and> avoid distant_obstacle = swept_into_frame (make_border 4 4 6 6) 2 distant_obstacle
   \<and> avoid (entering_obstacle\<lparr>avoid := True\<rparr>)
       = swept_into_frame (make_border 4 4 6 6) 2 (entering_obstacle\<lparr>avoid := True\<rparr>)"
  using moving_obstacles_returned [OF mixed_call] mixed_call by simp

subsection \<open>A second query in the same situation\<close>

lemma moving_loop_again:
  assumes "moving_loop b mtime obs oc = Inr (obs', mov, oc')"
  shows "moving_loop b mtime obs' False = Inr (obs', mov, False)"
  using assms
proof (induction obs arbitrary: oc obs' mov oc')
  case Nil
  then show ?case by simp
next
  case (Cons ob obs)
  show ?case
  proof (cases "is_moving ob")
    case True
    with Cons.prems obtain a1 oc1 obs1 mov1 where
      cv: "check_vertices b mtime (ob_velocity ob) (avoid ob) (obstacle_vertices ob)
             (avoid ob) oc = Inr (a1, oc1)"
      and ml: "moving_loop b mtime obs oc1 = Inr (obs1, mov1, oc')"
      and eqs: "obs' = ob\<lparr>avoid := a1\<rparr> # obs1" "mov = ob\<lparr>avoid := a1\<rparr> # mov1"
      by (auto split: sum.splits)
    from check_vertices_char [OF cv, of "avoid ob" "avoid ob" oc] cv
    have a1: "a1 = list_ex (\<lambda>v. point_in_frame_time v mtime (ob_velocity ob) b = Inr True)
                     (obstacle_vertices ob)"
      by (auto simp: obstacle_vertices_nonempty split: if_splits)
    have again: "check_vertices b mtime (ob_velocity ob) a1 (obstacle_vertices ob) a1 False
        = Inr (a1, False)"
      using check_vertices_char [OF cv, of a1 a1 False] a1
      by (auto simp: obstacle_vertices_nonempty)
    from Cons.IH [OF ml] True eqs again show ?thesis by simp
  next
    case False
    with Cons.prems obtain obs1 where
      ml: "moving_loop b mtime obs oc = Inr (obs1, mov, oc')" and eqs: "obs' = ob # obs1"
      by (auto split: sum.splits)
    from Cons.IH [OF ml] False eqs show ?thesis by simp
  qed
qed

text \<open>
  C8. When a query returns, a second query on the state it left (the obstacles with their
  new flags and the list it remembered), with the same frame and motion time, returns
  the same obstacles and reports no change.
\<close>

theorem second_call_reports_no_change:
  assumes "get_moving_obstacles_in_frame b mtime obs moving_obs_old = Inr r"
  shows "get_moving_obstacles_in_frame b mtime (new_obstacles r) (new_moving_obs r)
           = Inr (r\<lparr>obs_change := False\<rparr>)"
proof -
  from assms obtain obs' mov oc' where
    ml: "moving_loop b mtime obs False = Inr (obs', mov, oc')"
    and r: "new_obstacles r = obs'" "new_moving_obs r = Some mov" "moving_obstacles r = mov"
    by (auto simp: get_moving_obstacles_in_frame_def split: sum.splits)
  from moving_loop_again [OF ml] r show ?thesis
    by (simp add: get_moving_obstacles_in_frame_def)
qed

lemma entering_call:
  "get_moving_obstacles_in_frame (make_border 4 4 6 6) 2 [entering_obstacle] None
     = Inr \<lparr> moving_obstacles = [entering_obstacle\<lparr>avoid := True\<rparr>], obs_change = True,
             new_obstacles = [entering_obstacle\<lparr>avoid := True\<rparr>],
             new_moving_obs = Some [entering_obstacle\<lparr>avoid := True\<rparr>] \<rparr>"
  by (simp add: moving_defs entering_obstacle_def Let_def upto.simps)

theorem second_call_reports_no_change_witness:
  "get_moving_obstacles_in_frame (make_border 4 4 6 6) 2 [entering_obstacle] None
     = Inr \<lparr> moving_obstacles = [entering_obstacle\<lparr>avoid := True\<rparr>], obs_change = True,
             new_obstacles = [entering_obstacle\<lparr>avoid := True\<rparr>],
             new_moving_obs = Some [entering_obstacle\<lparr>avoid := True\<rparr>] \<rparr>
   \<and> get_moving_obstacles_in_frame (make_border 4 4 6 6) 2
         [entering_obstacle\<lparr>avoid := True\<rparr>] (Some [entering_obstacle\<lparr>avoid := True\<rparr>])
     = Inr \<lparr> moving_obstacles = [entering_obstacle\<lparr>avoid := True\<rparr>], obs_change = False,
             new_obstacles = [entering_obstacle\<lparr>avoid := True\<rparr>],
             new_moving_obs = Some [entering_obstacle\<lparr>avoid := True\<rparr>] \<rparr>"
  using second_call_reports_no_change [OF entering_call] entering_call by simp

subsection \<open>The last waypoint of a min-nobs frame lies inside its border\<close>



lemma point_in_frame_limits:
  "limits b = limits b' \<Longrightarrow> point_in_frame p b d = point_in_frame p b' d"
  by (simp add: point_in_frame_def)










text \<open>
  The reachability step leaves the waypoints as they are when the last one is not too
  close to the border, whatever the relocation.
\<close>

lemma move_waypoint_kept:
  assumes "wps \<noteq> []"
    and "distance_to_border (last wps) b = Inr d"
    and "\<not> any_too_close vs d"
  shows "move_waypoint relocate vs b wps = Inr wps"
  using assms by (simp add: move_waypoint_def)

text \<open>
  Both constructors assemble their frame from the same three steps; the frame's border is
  the scaled border and its endpoint the last waypoint after the reachability step.
\<close>

lemma create_next_frame_stages:
  assumes "create_next_frame self fr = Inr (Some nf)"
  shows "\<exists>fr0 swps.
           get_min_nobs_frame self (endpoint_frame fr) = Inr fr0
         \<and> scale_up_frame self fr0 = Inr (border nf, swps)
         \<and> move_waypoint (relocate_waypoint_next self) (veh_size self) (border nf) swps
             = Inr (waypoints nf)
         \<and> frame_type nf = MinNobs
         \<and> endpoint_frame nf = last (waypoints nf)"
  using assms
  by (auto simp: create_next_frame_def split: if_splits sum.splits prod.splits)

lemma create_frame_min_nobs_stages:
  assumes "create_frame_min_nobs self = Inr (fr, next_frame)"
  shows "\<exists>fr0 swps.
           get_min_nobs_frame self (curr_state self) = Inr fr0
         \<and> scale_up_frame self fr0 = Inr (border fr, swps)
         \<and> move_waypoint (relocate_waypoint self) (veh_size self) (border fr) swps
             = Inr (waypoints fr)
         \<and> frame_type fr = MinNobs
         \<and> endpoint_frame fr = last (waypoints fr)"
  using assms
  by (auto simp: create_frame_min_nobs_def Let_def split: sum.splits prod.splits)

subsection \<open>The last frame stays valid\<close>










end
